theory Spec2Isabelle
  imports Complex_Main "HOL-Library.Sublist"
begin

section \<open>Python values handled by the RagFlow client\<close>

text \<open>
  A Python \<open>str\<close> is a sequence of Unicode code points, a \<open>bytes\<close> object a sequence of
  8-bit values.  ASCII literals of the source are written \<open>str ''...''\<close>; literals with
  Chinese text are given by their code points.
\<close>

type_synonym pystr = "nat list"
type_synonym bytes = "char list"

definition str :: "string \<Rightarrow> pystr" where
  "str s = map of_char s"

text \<open>
  What \<open>json.loads\<close> / \<open>response.json()\<close> produce: \<open>None\<close>, \<open>bool\<close>, \<open>int\<close>, \<open>float\<close>
  (a finite value, an infinity with its sign, or NaN), \<open>str\<close>, \<open>list\<close> and \<open>dict\<close> with
  string keys.  A dict is an association list; a key is looked up with \<open>map_of\<close>.
\<close>

datatype pyfloat = FFinite rat | FInfinity bool | FNaN

datatype json =
    JNull
  | JBool bool
  | JInt int
  | JFloat pyfloat
  | JString pystr
  | JArray "json list"
  | JObject "(pystr \<times> json) list"

text \<open>Python's \<open>x == 0\<close> on such a value: \<open>False == 0\<close> and \<open>0.0 == 0\<close> hold.\<close>

fun py_eq_zero :: "json \<Rightarrow> bool" where
  "py_eq_zero (JInt n) = (n = 0)"
| "py_eq_zero (JBool b) = (\<not> b)"
| "py_eq_zero (JFloat (FFinite q)) = (q = 0)"
| "py_eq_zero _ = False"

text \<open>Python's truth value of such a value (\<open>if x:\<close>).\<close>

fun truthy :: "json \<Rightarrow> bool" where
  "truthy JNull = False"
| "truthy (JBool b) = b"
| "truthy (JInt n) = (n \<noteq> 0)"
| "truthy (JFloat (FFinite q)) = (q \<noteq> 0)"
| "truthy (JFloat _) = True"
| "truthy (JString s) = (s \<noteq> [])"
| "truthy (JArray xs) = (xs \<noteq> [])"
| "truthy (JObject kvs) = (kvs \<noteq> [])"

subsection \<open>Exceptions (exceptions.py and the built-in ones the code can raise)\<close>

text \<open>
  The message argument of a raised exception is either a Python value passed as it is
  (\<open>Value\<close>: a literal, or what \<open>data.get("message", default)\<close> returned) or an f-string
  \<open>f"<prefix>{v}"\<close> (\<open>Format prefix v\<close>), whose text is the prefix followed by \<open>str(v)\<close>.
\<close>

datatype pymsg = Value json | Format pystr json

datatype exn =
    AuthenticationError pymsg
  | APIError pymsg
  | ValidationError pymsg
  | ResourceNotFoundError pymsg
  | FileNotFoundError pymsg
  | NotADirectoryError pymsg
  | AttributeError
  | TypeError
  | KeyError
  | IndexError
  | UnicodeDecodeError
  | LibraryError nat

text \<open>
  \<open>AttributeError\<close>, \<open>TypeError\<close>, \<open>KeyError\<close>, \<open>IndexError\<close> and \<open>UnicodeDecodeError\<close>
  are raised by the interpreter itself (\<open>.get\<close> on a value that is no dict, \<open>**\<close> on a
  value that is no mapping, \<open>x[0]\<close>, \<open>bytes.decode\<close>); \<open>LibraryError\<close> stands for an exception of a library
  (\<open>requests\<close>, \<open>pydantic\<close>, the operating system), identified by a number.
\<close>

text \<open>\<open>d.get(key, default)\<close>; on a value without a \<open>get\<close> attribute Python raises.\<close>

fun py_get :: "json \<Rightarrow> pystr \<Rightarrow> json \<Rightarrow> exn + json" where
  "py_get (JObject kvs) k d = Inr (case map_of kvs k of Some v \<Rightarrow> v | None \<Rightarrow> d)"
| "py_get _ k d = Inl AttributeError"

section \<open>utils.py: handle_response\<close>

text \<open>The literals \<open>"API\<dots>"\<close> (prefix of the error text) and the default message.\<close>

definition handle_response_prefix :: pystr where
  "handle_response_prefix =
     str ''API'' @ [35831, 27714, 22833, 36133, 65292, 38169, 35823, 20449, 24687, 65306]"

definition handle_response_unknown :: pystr where
  "handle_response_unknown = [26410, 30693, 38169, 35823]"

text \<open>Python's \<open>"code" in response\<close>: key membership for a dict, element membership for
  a list, substring test for a str, \<open>TypeError\<close> for the values that are not iterable.\<close>

fun py_in :: "pystr \<Rightarrow> json \<Rightarrow> exn + bool" where
  "py_in k (JObject kvs) = Inr (map_of kvs k \<noteq> None)"
| "py_in k (JArray xs) = Inr (JString k \<in> set xs)"
| "py_in k (JString s) = Inr (sublist k s)"
| "py_in k _ = Inl TypeError"

definition handle_response :: "json \<Rightarrow> exn + json" where
  "handle_response response =
     (case py_in (str ''code'') response of
        Inl e \<Rightarrow> Inl e
      | Inr True \<Rightarrow>
          (case py_get response (str ''code'') JNull of
             Inl e \<Rightarrow> Inl e
           | Inr code \<Rightarrow>
               if \<not> py_eq_zero code then
                 (case py_get response (str ''message'') (JString handle_response_unknown) of
                    Inl e \<Rightarrow> Inl e
                  | Inr m \<Rightarrow> Inl (APIError (Format handle_response_prefix m)))
               else
                 (case py_get response (str ''data'') JNull of
                    Inl e \<Rightarrow> Inl e
                  | Inr data \<Rightarrow> if data \<noteq> JNull then Inr data else Inr response))
      | Inr False \<Rightarrow> Inr response)"

section \<open>client.py: the transport and the response interpreter\<close>

text \<open>
  What the code reads from a \<open>requests.Response\<close>: the status, the body as text, the
  outcome of \<open>response.json()\<close> (\<open>None\<close> when it raises \<open>JSONDecodeError\<close>), the lines of
  \<open>iter_lines()\<close> and the blocks of \<open>iter_content(chunk_size=8192)\<close>.
\<close>

record response =
  status_code :: int
  body_text :: pystr
  body_json :: "json option"
  iter_lines :: "bytes list"
  iter_content :: "bytes list"

text \<open>\<open>_request\<close> returns the decoded body, or the raw response when streaming.\<close>

datatype reply = Decoded json | Raw response

text \<open>
  \<open>request\<close> is \<open>RagFlowClient._request\<close> after \<open>session.request\<close> has returned or
  raised: the first argument is that outcome, the second the \<open>stream\<close> flag.
\<close>

definition request :: "exn + response \<Rightarrow> bool \<Rightarrow> exn + reply" where
  "request sent stream =
     (case sent of
        Inl e \<Rightarrow> Inl e
      | Inr response \<Rightarrow>
          if stream then Inr (Raw response)
          else
            (case body_json response of
               None \<Rightarrow>
                 Inl (APIError (Value (JString (str ''Invalid JSON response: '' @ body_text response))))
             | Some data \<Rightarrow>
                 if status_code response \<ge> 400 then
                   (if status_code response = 401 then
                      (case py_get data (str ''message'') (JString (str ''Authentication failed'')) of
                         Inl e \<Rightarrow> Inl e
                       | Inr m \<Rightarrow> Inl (AuthenticationError (Value m)))
                    else if status_code response = 404 then
                      (case py_get data (str ''message'') (JString (str ''Resource not found'')) of
                         Inl e \<Rightarrow> Inl e
                       | Inr m \<Rightarrow> Inl (ResourceNotFoundError (Value m)))
                    else
                      (case py_get data (str ''message'') (JString (str ''Unknown error'')) of
                         Inl e \<Rightarrow> Inl e
                       | Inr m \<Rightarrow> Inl (APIError (Format (str ''API request failed: '') m))))
                 else Inr (Decoded data)))"

subsection \<open>Strings: the str and bytes operations the client uses\<close>

text \<open>\<open>s.lstrip(chars)\<close> and \<open>s.rstrip(chars)\<close> remove every leading (trailing) character
  that occurs in \<open>chars\<close>: the argument is a set of characters, not a prefix.\<close>

definition lstrip :: "pystr \<Rightarrow> pystr \<Rightarrow> pystr" where
  "lstrip chars s = dropWhile (\<lambda>c. c \<in> set chars) s"

definition rstrip :: "pystr \<Rightarrow> pystr \<Rightarrow> pystr" where
  "rstrip chars s = rev (dropWhile (\<lambda>c. c \<in> set chars) (rev s))"

text \<open>The code points Python's \<open>str.strip()\<close> treats as whitespace.\<close>

definition is_space :: "nat \<Rightarrow> bool" where
  "is_space c \<longleftrightarrow>
     (9 \<le> c \<and> c \<le> 13) \<or> (28 \<le> c \<and> c \<le> 32) \<or> c = 133 \<or> c = 160 \<or> c = 5760
     \<or> (8192 \<le> c \<and> c \<le> 8202) \<or> c = 8232 \<or> c = 8233 \<or> c = 8239 \<or> c = 8287
     \<or> c = 12288"

definition strip :: "pystr \<Rightarrow> pystr" where
  "strip s = rev (dropWhile is_space (rev (dropWhile is_space s)))"

text \<open>\<open>bytes.decode("utf-8")\<close>, strict: \<open>None\<close> is \<open>UnicodeDecodeError\<close>.  Overlong forms,
  surrogates and values above U+10FFFF are rejected.\<close>

definition is_cont :: "nat \<Rightarrow> bool" where
  "is_cont b \<longleftrightarrow> 128 \<le> b \<and> b < 192"

fun utf8 :: "nat list \<Rightarrow> pystr option" where
  "utf8 [] = Some []"
| "utf8 (b0 # bs) =
     (if b0 < 128 then map_option (Cons b0) (utf8 bs)
      else if 194 \<le> b0 \<and> b0 < 224 then
        (case bs of
           b1 # r \<Rightarrow>
             if is_cont b1
             then map_option (Cons ((b0 - 192) * 64 + (b1 - 128))) (utf8 r)
             else None
         | _ \<Rightarrow> None)
      else if 224 \<le> b0 \<and> b0 < 240 then
        (case bs of
           b1 # b2 # r \<Rightarrow>
             (let cp = (b0 - 224) * 4096 + (b1 - 128) * 64 + (b2 - 128) in
              if is_cont b1 \<and> is_cont b2 \<and> 2048 \<le> cp \<and> \<not> (55296 \<le> cp \<and> cp < 57344)
              then map_option (Cons cp) (utf8 r)
              else None)
         | _ \<Rightarrow> None)
      else if 240 \<le> b0 \<and> b0 < 245 then
        (case bs of
           b1 # b2 # b3 # r \<Rightarrow>
             (let cp = (b0 - 240) * 262144 + (b1 - 128) * 4096 + (b2 - 128) * 64 + (b3 - 128) in
              if is_cont b1 \<and> is_cont b2 \<and> is_cont b3 \<and> 65536 \<le> cp \<and> cp < 1114112
              then map_option (Cons cp) (utf8 r)
              else None)
         | _ \<Rightarrow> None)
      else None)"

definition decode :: "bytes \<Rightarrow> pystr option" where
  "decode b = utf8 (map of_char b)"

subsection \<open>Streaming chat completion: the loop over \<open>response.iter_lines()\<close>\<close>

text \<open>
  \<open>json_line\<close> is \<open>line.decode("utf-8").lstrip("data: ").strip()\<close>.  \<open>stream_chunks\<close> is the
  loop with its accumulator \<open>chunks\<close>; \<open>loads\<close> is \<open>json.loads\<close> (\<open>None\<close> when it raises
  \<open>JSONDecodeError\<close>), a function of the standard library taken as a parameter.
\<close>

definition json_line :: "bytes \<Rightarrow> pystr option" where
  "json_line line = map_option (\<lambda>text. strip (lstrip (str ''data: '') text)) (decode line)"

fun stream_chunks :: "(pystr \<Rightarrow> json option) \<Rightarrow> json list \<Rightarrow> bytes list \<Rightarrow> exn + json list" where
  "stream_chunks loads chunks [] = Inr chunks"
| "stream_chunks loads chunks (line # rest) =
     (if line \<noteq> [] then
        (case json_line line of
           None \<Rightarrow> Inl UnicodeDecodeError
         | Some jl \<Rightarrow>
             if jl \<noteq> [] then
               (case loads jl of
                  Some chunk \<Rightarrow> stream_chunks loads (chunks @ [chunk]) rest
                | None \<Rightarrow> stream_chunks loads chunks rest)
             else stream_chunks loads chunks rest)
      else stream_chunks loads chunks rest)"

section \<open>models.py: the typed records\<close>

text \<open>A parsed \<open>datetime\<close> is kept abstract.\<close>

typedecl datetime

record dataset =
  ds_id :: pystr
  ds_name :: pystr
  ds_avatar :: "pystr option"
  ds_description :: "pystr option"
  ds_embedding_model :: pystr
  ds_chunk_method :: pystr
  ds_parser_config :: "(pystr \<times> json) list"
  ds_permission :: pystr
  ds_create_date :: datetime
  ds_update_date :: datetime
  ds_chunk_count :: int
  ds_document_count :: int
  ds_token_num :: int
  ds_status :: pystr

record document =
  doc_id :: pystr
  doc_name :: pystr
  doc_dataset_id :: pystr
  doc_location :: pystr
  doc_size :: int
  doc_type :: pystr
  doc_chunk_method :: pystr
  doc_parser_config :: "(pystr \<times> json) list"
  doc_run :: pystr
  doc_created_by :: pystr

record chunk =
  ch_id :: pystr
  ch_dataset_id :: pystr
  ch_document_id :: pystr
  ch_content :: pystr
  ch_chunk_token_count :: int
  ch_delimiter :: pystr
  ch_create_time :: int
  ch_update_time :: int

record completion_tokens_details =
  accepted_prediction_tokens :: int
  reasoning_tokens :: int
  rejected_prediction_tokens :: int

record chat_completion_usage =
  completion_tokens :: int
  completion_tokens_details :: completion_tokens_details

record chat_completion_response =
  cc_id :: pystr
  cc_choices :: "json list"
  cc_created :: int
  cc_model :: pystr
  cc_object :: pystr
  cc_usage :: chat_completion_usage

text \<open>What a facade operation returns: \<open>None\<close>, a decoded JSON value passed on as it is, or
  instances of the model classes.\<close>

datatype pyval =
    PNone
  | PJson json
  | PCompletion chat_completion_response
  | PDataset dataset
  | PDatasets "dataset list"
  | PDocuments "document list"
  | PChunk chunk

text \<open>
  The library functions the client calls and this repository does not define:
  \<open>json.loads\<close>, \<open>urllib.parse.urljoin\<close> and the validation pydantic runs when a model
  class is instantiated from keyword arguments (it returns the instance or raises).
\<close>

record lib =
  loads :: "pystr \<Rightarrow> json option"
  urljoin :: "pystr \<Rightarrow> pystr \<Rightarrow> pystr"
  validate_completion :: "(pystr \<times> json) list \<Rightarrow> exn + chat_completion_response"
  validate_dataset :: "(pystr \<times> json) list \<Rightarrow> exn + dataset"
  validate_chunk :: "(pystr \<times> json) list \<Rightarrow> exn + chunk"

text \<open>\<open>Model(**d)\<close>: \<open>**\<close> needs a mapping, then pydantic validates the keyword arguments.\<close>

fun construct :: "((pystr \<times> json) list \<Rightarrow> exn + 'm) \<Rightarrow> json \<Rightarrow> exn + 'm" where
  "construct validate (JObject kvs) = validate kvs"
| "construct validate _ = Inl TypeError"

text \<open>Iterating a decoded value (\<open>for item in x\<close>): the elements of a list, the keys of
  a dict, the characters of a str; the other values are not iterable.\<close>

fun py_iter :: "json \<Rightarrow> exn + json list" where
  "py_iter (JArray xs) = Inr xs"
| "py_iter (JObject kvs) = Inr (map (\<lambda>kv. JString (fst kv)) kvs)"
| "py_iter (JString s) = Inr (map (\<lambda>c. JString [c]) s)"
| "py_iter _ = Inl TypeError"

text \<open>The list comprehension \<open>[Model(**item) for item in items]\<close>: the first item that
  fails raises.\<close>

fun construct_all :: "((pystr \<times> json) list \<Rightarrow> exn + 'm) \<Rightarrow> json list \<Rightarrow> exn + 'm list" where
  "construct_all validate [] = Inr []"
| "construct_all validate (item # items) =
     (case construct validate item of
        Inl e \<Rightarrow> Inl e
      | Inr m \<Rightarrow> (case construct_all validate items of Inl e \<Rightarrow> Inl e | Inr ms \<Rightarrow> Inr (m # ms)))"

section \<open>Effects\<close>

text \<open>
  What a run does besides returning or raising, in order: \<open>print(f"<literal>{arg}")\<close>, a
  write to the caller's output file, and (for the batch script) the calls to the file
  system and to the client.
\<close>

datatype parg =
    NoArg
  | ArgStr pystr
  | ArgStrs "pystr list"
  | ArgInt int
  | ArgJson json
  | ArgExn exn

datatype event =
    Print pystr parg
  | Write bytes
  | ListDatasetsCall pystr
  | PathExists pystr
  | PathIsDir pystr
  | ListDir pystr
  | PathIsFile pystr
  | OpenFile pystr
  | UploadCall pystr pystr
  | ParseCall pystr "json list"

type_synonym 'a run = "(exn + 'a) \<times> event list"

definition ret :: "'a \<Rightarrow> 'a run" where
  "ret x = (Inr x, [])"

definition raise :: "exn \<Rightarrow> 'a run" where
  "raise e = (Inl e, [])"

definition emit :: "event \<Rightarrow> unit run" where
  "emit ev = (Inr (), [ev])"

definition lift :: "exn + 'a \<Rightarrow> 'a run" where
  "lift r = (r, [])"

text \<open>Sequencing: an exception of the first part ends the run, keeping its effects.\<close>

definition seq :: "'a run \<Rightarrow> ('a \<Rightarrow> 'b run) \<Rightarrow> 'b run" where
  "seq m f =
     (case m of
        (Inl e, t) \<Rightarrow> (Inl e, t)
      | (Inr x, t) \<Rightarrow> (case f x of (r, t') \<Rightarrow> (r, t @ t')))"

section \<open>client.py: RagFlowClient\<close>

record client =
  api_key :: pystr
  base_url :: pystr

text \<open>\<open>get_base_url\<close> and \<open>join_url\<close> of utils.py; the argument of \<open>get_base_url\<close> is the
  value of the environment variable \<open>RAGFLOW_API_URL\<close>, if it is set.\<close>

definition get_base_url :: "pystr option \<Rightarrow> pystr" where
  "get_base_url env_url =
     (case env_url of Some u \<Rightarrow> u | None \<Rightarrow> str ''http://120.224.107.249:22280'')"

definition join_url :: "lib \<Rightarrow> pystr \<Rightarrow> pystr \<Rightarrow> pystr" where
  "join_url L base path = urljoin L (rstrip (str ''/'') base @ str ''/'') (lstrip (str ''/'') path)"

text \<open>Python's \<open>a or b\<close> on optional strings: \<open>None\<close> and \<open>""\<close> are false.\<close>

fun py_or :: "pystr option \<Rightarrow> pystr option \<Rightarrow> pystr option" where
  "py_or (Some a) b = (if a \<noteq> [] then Some a else b)"
| "py_or None b = b"

text \<open>\<open>RagFlowClient.__init__\<close>: the arguments, then the values of the environment
  variables \<open>RAGFLOW_API_KEY\<close> and \<open>RAGFLOW_API_URL\<close>.\<close>

definition init :: "pystr option \<Rightarrow> pystr option \<Rightarrow> pystr option \<Rightarrow> pystr option \<Rightarrow> exn + client" where
  "init key url env_key env_url =
     (case py_or key env_key of
        Some k \<Rightarrow>
          if k \<noteq> [] then
            Inr \<lparr>api_key = k,
                 base_url = (case py_or url (Some (get_base_url env_url)) of
                               Some u \<Rightarrow> u | None \<Rightarrow> get_base_url env_url)\<rparr>
          else Inl (AuthenticationError (Value (JString (str ''API key is required''))))
      | None \<Rightarrow> Inl (AuthenticationError (Value (JString (str ''API key is required'')))))"

text \<open>
  Each operation below is the part of the facade operation that follows the HTTP call: its
  argument \<open>sent\<close> is the outcome of that call (the response, or the exception the
  transport raised).  \<open>request_json\<close> is \<open>self._request(...)\<close> without \<open>stream\<close>, whose
  result is the decoded body.
\<close>

definition request_json :: "exn + response \<Rightarrow> exn + json" where
  "request_json sent =
     (case request sent False of
        Inl e \<Rightarrow> Inl e
      | Inr (Decoded data) \<Rightarrow> Inr data
      | Inr (Raw r) \<Rightarrow> Inl TypeError)"

definition chat_print :: pystr where
  "chat_print = str ''API'' @ [35831, 27714, 22833, 36133] @ str '': ''"

definition create_chat_completion :: "lib \<Rightarrow> bool \<Rightarrow> exn + response \<Rightarrow> pyval run" where
  "create_chat_completion L stream sent =
     (if stream then
        (case request sent True of
           Inl e \<Rightarrow> raise e
         | Inr (Raw response) \<Rightarrow>
             (case stream_chunks (loads L) [] (iter_lines response) of
                Inl e \<Rightarrow> raise e
              | Inr chunks \<Rightarrow> ret (PJson (JArray chunks)))
         | Inr (Decoded data) \<Rightarrow> raise AttributeError)
      else
        (case request_json sent of
           Inl e \<Rightarrow> raise e
         | Inr response \<Rightarrow>
             (case handle_response response of
                Inl (APIError m) \<Rightarrow>
                  seq (emit (Print chat_print (ArgExn (APIError m)))) (\<lambda>_. ret PNone)
              | Inl e \<Rightarrow> raise e
              | Inr parsed_data \<Rightarrow>
                  (case construct (validate_completion L) parsed_data of
                     Inl e \<Rightarrow> raise e
                   | Inr m \<Rightarrow> ret (PCompletion m)))))"

definition create_dataset :: "lib \<Rightarrow> exn + response \<Rightarrow> dataset run" where
  "create_dataset L sent =
     (case request_json sent of
        Inl e \<Rightarrow> raise e
      | Inr response \<Rightarrow>
          (case handle_response response of
             Inl e \<Rightarrow> raise e
           | Inr d \<Rightarrow>
               (case construct (validate_dataset L) d of
                  Inl e \<Rightarrow> raise e
                | Inr m \<Rightarrow> ret m)))"

definition list_datasets :: "lib \<Rightarrow> exn + response \<Rightarrow> dataset list run" where
  "list_datasets L sent =
     (case request_json sent of
        Inl e \<Rightarrow> raise e
      | Inr response \<Rightarrow>
          (case handle_response response of
             Inl e \<Rightarrow> raise e
           | Inr d \<Rightarrow>
               (case py_iter d of
                  Inl e \<Rightarrow> raise e
                | Inr items \<Rightarrow>
                    (case construct_all (validate_dataset L) items of
                       Inl e \<Rightarrow> raise e
                     | Inr ms \<Rightarrow> ret ms))))"

definition delete_datasets :: "exn + response \<Rightarrow> unit run" where
  "delete_datasets sent = (case request_json sent of Inl e \<Rightarrow> raise e | Inr _ \<Rightarrow> ret ())"

definition update_dataset :: "exn + response \<Rightarrow> unit run" where
  "update_dataset sent = (case request_json sent of Inl e \<Rightarrow> raise e | Inr _ \<Rightarrow> ret ())"

text \<open>\<open>os.path.basename\<close> (POSIX): what follows the last \<open>/\<close>.\<close>

definition basename :: "pystr \<Rightarrow> pystr" where
  "basename p = rev (takeWhile (\<lambda>c. c \<noteq> 47) (rev p))"

definition upload_url_print :: pystr where
  "upload_url_print = str ''[UPLOAD DEBUG] '' @ [19978, 20256, 25991, 26723, 21040] @ str ''URL: ''"

definition upload_files_print :: pystr where
  "upload_files_print = str ''[UPLOAD DEBUG] '' @ [25991, 20214, 21442, 25968] @ str '': ''"

definition upload_status_print :: pystr where
  "upload_status_print = str ''[UPLOAD DEBUG] '' @ [21709, 24212, 29366, 24577, 30721] @ str '': ''"

definition upload_text_print :: pystr where
  "upload_text_print = str ''[UPLOAD DEBUG] '' @ [21709, 24212, 20869, 23481] @ str '': ''"

text \<open>
  \<open>upload_documents\<close> calls \<open>requests.request\<close> itself and maps the response on its own.
  \<open>files\<close> are the names of the open files (\<open>file.name\<close>).  What it returns is
  \<open>data.get("data", [])\<close>, the decoded value as it is.
\<close>

definition upload_documents ::
    "lib \<Rightarrow> client \<Rightarrow> pystr \<Rightarrow> pystr list \<Rightarrow> exn + response \<Rightarrow> json run" where
  "upload_documents L self dataset_id files sent =
     seq (emit (Print upload_url_print
            (ArgStr (join_url L (base_url self)
               (str ''/api/v1/datasets/'' @ dataset_id @ str ''/documents''))))) (\<lambda>_.
     seq (emit (Print upload_files_print (ArgStrs (map basename files)))) (\<lambda>_.
     (case sent of
        Inl e \<Rightarrow> raise e
      | Inr response \<Rightarrow>
          seq (emit (Print upload_status_print (ArgInt (status_code response)))) (\<lambda>_.
          seq (emit (Print upload_text_print (ArgStr (body_text response)))) (\<lambda>_.
          (case body_json response of
             None \<Rightarrow>
               raise (APIError (Value (JString (str ''Invalid JSON response: '' @ body_text response))))
           | Some data \<Rightarrow>
               if status_code response \<ge> 400 then
                 (case py_get data (str ''message'') (JString (str ''Unknown error'')) of
                    Inl e \<Rightarrow> raise e
                  | Inr message \<Rightarrow> raise (APIError (Format (str ''API request failed: '') message)))
               else
                 (case py_get data (str ''data'') (JArray []) of
                    Inl e \<Rightarrow> raise e
                  | Inr docs \<Rightarrow> ret docs)))))))"

definition update_document :: "exn + response \<Rightarrow> unit run" where
  "update_document sent = (case request_json sent of Inl e \<Rightarrow> raise e | Inr _ \<Rightarrow> ret ())"

text \<open>\<open>download_document\<close> calls \<open>session.get\<close> itself; only \<open>JSONDecodeError\<close> is caught
  around \<open>response.json()\<close> and \<open>data.get\<close>.\<close>

definition download_document :: "exn + response \<Rightarrow> unit run" where
  "download_document sent =
     (case sent of
        Inl e \<Rightarrow> raise e
      | Inr response \<Rightarrow>
          if status_code response \<ge> 400 then
            (case body_json response of
               Some data \<Rightarrow>
                 (case py_get data (str ''message'') (JString (str ''Unknown error'')) of
                    Inl e \<Rightarrow> raise e
                  | Inr message \<Rightarrow>
                      raise (APIError (Format (str ''Failed to download document: '') message)))
             | None \<Rightarrow>
                 raise (APIError (Value (JString
                   (str ''Failed to download document: '' @ body_text response)))))
          else (Inr (), map Write (iter_content response)))"

definition list_chunks :: "exn + response \<Rightarrow> json run" where
  "list_chunks sent = (case request_json sent of Inl e \<Rightarrow> raise e | Inr response \<Rightarrow> ret response)"

definition retrieve_chunks :: "exn + response \<Rightarrow> json run" where
  "retrieve_chunks sent =
     (case request_json sent of
        Inl e \<Rightarrow> raise e
      | Inr response \<Rightarrow>
          (case handle_response response of Inl e \<Rightarrow> raise e | Inr d \<Rightarrow> ret d))"

definition get_chunk :: "lib \<Rightarrow> exn + response \<Rightarrow> chunk run" where
  "get_chunk L sent =
     (case request_json sent of
        Inl e \<Rightarrow> raise e
      | Inr response \<Rightarrow>
          (case handle_response response of
             Inl e \<Rightarrow> raise e
           | Inr d \<Rightarrow>
               (case construct (validate_chunk L) d of
                  Inl e \<Rightarrow> raise e
                | Inr m \<Rightarrow> ret m)))"

definition update_chunk :: "exn + response \<Rightarrow> unit run" where
  "update_chunk sent = (case request_json sent of Inl e \<Rightarrow> raise e | Inr _ \<Rightarrow> ret ())"

definition delete_chunk :: "exn + response \<Rightarrow> unit run" where
  "delete_chunk sent = (case request_json sent of Inl e \<Rightarrow> raise e | Inr _ \<Rightarrow> ret ())"

definition parse_documents :: "exn + response \<Rightarrow> json run" where
  "parse_documents sent =
     (case request_json sent of
        Inl e \<Rightarrow> raise e
      | Inr response \<Rightarrow>
          (case handle_response response of Inl e \<Rightarrow> raise e | Inr d \<Rightarrow> ret d))"

text \<open>The operations of the class, for statements about all of them; \<open>call\<close> gives what the
  caller of an operation receives.\<close>

datatype operation =
    CreateChatCompletion bool
  | CreateDataset
  | ListDatasets
  | DeleteDatasets
  | UpdateDataset
  | UploadDocuments pystr "pystr list"
  | UpdateDocument
  | DownloadDocument
  | ListChunks
  | RetrieveChunks
  | GetChunk
  | UpdateChunk
  | DeleteChunk
  | ParseDocuments

fun call :: "lib \<Rightarrow> client \<Rightarrow> operation \<Rightarrow> exn + response \<Rightarrow> pyval run" where
  "call L self (CreateChatCompletion stream) sent = create_chat_completion L stream sent"
| "call L self CreateDataset sent = seq (create_dataset L sent) (\<lambda>m. ret (PDataset m))"
| "call L self ListDatasets sent = seq (list_datasets L sent) (\<lambda>ms. ret (PDatasets ms))"
| "call L self DeleteDatasets sent = seq (delete_datasets sent) (\<lambda>_. ret PNone)"
| "call L self UpdateDataset sent = seq (update_dataset sent) (\<lambda>_. ret PNone)"
| "call L self (UploadDocuments dataset_id files) sent =
     seq (upload_documents L self dataset_id files sent) (\<lambda>docs. ret (PJson docs))"
| "call L self UpdateDocument sent = seq (update_document sent) (\<lambda>_. ret PNone)"
| "call L self DownloadDocument sent = seq (download_document sent) (\<lambda>_. ret PNone)"
| "call L self ListChunks sent = seq (list_chunks sent) (\<lambda>d. ret (PJson d))"
| "call L self RetrieveChunks sent = seq (retrieve_chunks sent) (\<lambda>d. ret (PJson d))"
| "call L self GetChunk sent = seq (get_chunk L sent) (\<lambda>m. ret (PChunk m))"
| "call L self UpdateChunk sent = seq (update_chunk sent) (\<lambda>_. ret PNone)"
| "call L self DeleteChunk sent = seq (delete_chunk sent) (\<lambda>_. ret PNone)"
| "call L self ParseDocuments sent = seq (parse_documents sent) (\<lambda>d. ret (PJson d))"

text \<open>The operations that go through \<open>self._request\<close> (with which \<open>stream\<close> flag), and those
  that pass its result to \<open>handle_response\<close>.\<close>

fun uses_request :: "operation \<Rightarrow> bool option" where
  "uses_request (CreateChatCompletion stream) = Some stream"
| "uses_request (UploadDocuments dataset_id files) = None"
| "uses_request DownloadDocument = None"
| "uses_request _ = Some False"

fun calls_handle_response :: "operation \<Rightarrow> bool" where
  "calls_handle_response (CreateChatCompletion stream) = (\<not> stream)"
| "calls_handle_response CreateDataset = True"
| "calls_handle_response ListDatasets = True"
| "calls_handle_response RetrieveChunks = True"
| "calls_handle_response GetChunk = True"
| "calls_handle_response ParseDocuments = True"
| "calls_handle_response _ = False"

subsection \<open>The parameter and body mappings the operations build\<close>

text \<open>An optional argument that was not set is \<open>None\<close>; as a value of a dict it is
  serialised as \<open>null\<close>.\<close>

fun opt_str :: "pystr option \<Rightarrow> json" where
  "opt_str None = JNull"
| "opt_str (Some s) = JString s"

fun opt_strs :: "pystr list option \<Rightarrow> json" where
  "opt_strs None = JNull"
| "opt_strs (Some xs) = JArray (map JString xs)"

text \<open>\<open>if v: data[k] = v\<close> for an optional string and an optional dict (\<open>None\<close> and the
  empty value are false), and \<open>if v is not None: data[k] = v\<close>.\<close>

fun set_if_str :: "pystr \<Rightarrow> pystr option \<Rightarrow> (pystr \<times> json) list" where
  "set_if_str k (Some s) = (if s \<noteq> [] then [(k, JString s)] else [])"
| "set_if_str k None = []"

fun set_if_dict :: "pystr \<Rightarrow> (pystr \<times> json) list option \<Rightarrow> (pystr \<times> json) list" where
  "set_if_dict k (Some d) = (if d \<noteq> [] then [(k, JObject d)] else [])"
| "set_if_dict k None = []"

fun set_if_not_none :: "pystr \<Rightarrow> json option \<Rightarrow> (pystr \<times> json) list" where
  "set_if_not_none k (Some v) = [(k, v)]"
| "set_if_not_none k None = []"

text \<open>\<open>create_dataset\<close>: the dict literal holds all six keys, whatever the arguments.\<close>

definition create_dataset_data ::
    "pystr \<Rightarrow> pystr option \<Rightarrow> pystr option \<Rightarrow> pystr \<Rightarrow> (pystr \<times> json) list option \<Rightarrow> pystr
       \<Rightarrow> (pystr \<times> json) list" where
  "create_dataset_data name embedding_model description chunk_method parser_config permission =
     [(str ''name'', JString name),
      (str ''embedding_model'', opt_str embedding_model),
      (str ''description'', opt_str description),
      (str ''chunk_method'', JString chunk_method),
      (str ''parser_config'',
         JObject (case parser_config of Some d \<Rightarrow> (if d \<noteq> [] then d else []) | None \<Rightarrow> [])),
      (str ''permission'', JString permission)]"

definition list_datasets_params ::
    "int \<Rightarrow> int \<Rightarrow> pystr \<Rightarrow> bool \<Rightarrow> pystr option \<Rightarrow> pystr option \<Rightarrow> (pystr \<times> json) list" where
  "list_datasets_params page page_size orderby desc name dataset_id =
     [(str ''page'', JInt page), (str ''page_size'', JInt page_size),
      (str ''orderby'', JString orderby), (str ''desc'', JBool desc)]
     @ set_if_str (str ''name'') name
     @ set_if_str (str ''id'') dataset_id"

definition update_dataset_data ::
    "pystr option \<Rightarrow> pystr option \<Rightarrow> pystr option \<Rightarrow> (pystr \<times> json) list" where
  "update_dataset_data name embedding_model chunk_method =
     set_if_str (str ''name'') name
     @ set_if_str (str ''embedding_model'') embedding_model
     @ set_if_str (str ''chunk_method'') chunk_method"

definition update_document_data ::
    "pystr option \<Rightarrow> (pystr \<times> json) list option \<Rightarrow> pystr option \<Rightarrow> (pystr \<times> json) list option
       \<Rightarrow> (pystr \<times> json) list" where
  "update_document_data name meta_fields chunk_method parser_config =
     set_if_str (str ''name'') name
     @ set_if_dict (str ''meta_fields'') meta_fields
     @ set_if_str (str ''chunk_method'') chunk_method
     @ set_if_dict (str ''parser_config'') parser_config"

definition update_chunk_data :: "int option \<Rightarrow> pystr option \<Rightarrow> (pystr \<times> json) list" where
  "update_chunk_data chunk_token_count delimiter =
     set_if_not_none (str ''chunk_token_count'') (map_option JInt chunk_token_count)
     @ set_if_not_none (str ''delimiter'') (map_option JString delimiter)"

text \<open>\<open>retrieve_chunks\<close> builds the full dict and then removes the keys whose value is
  \<open>None\<close> (\<open>{k: v for k, v in data.items() if v is not None}\<close>).\<close>

definition retrieve_chunks_data ::
    "pystr \<Rightarrow> pystr list option \<Rightarrow> pystr list option \<Rightarrow> int \<Rightarrow> int \<Rightarrow> pyfloat \<Rightarrow> pyfloat \<Rightarrow> int
       \<Rightarrow> pystr option \<Rightarrow> bool \<Rightarrow> bool \<Rightarrow> (pystr \<times> json) list" where
  "retrieve_chunks_data question dataset_ids document_ids page page_size similarity_threshold
       vector_similarity_weight top_k rerank_id keyword highlight =
     filter (\<lambda>kv. snd kv \<noteq> JNull)
       [(str ''question'', JString question),
        (str ''dataset_ids'', opt_strs dataset_ids),
        (str ''document_ids'', opt_strs document_ids),
        (str ''page'', JInt page),
        (str ''page_size'', JInt page_size),
        (str ''similarity_threshold'', JFloat similarity_threshold),
        (str ''vector_similarity_weight'', JFloat vector_similarity_weight),
        (str ''top_k'', JInt top_k),
        (str ''rerank_id'', opt_str rerank_id),
        (str ''keyword'', JBool keyword),
        (str ''highlight'', JBool highlight)]"

section \<open>upload_documents_with_parse.py: the batch script\<close>

definition SUPPORTED_FILE_TYPES :: "(pystr \<times> pystr list) list" where
  "SUPPORTED_FILE_TYPES =
     [(str ''word'', [str ''.doc'', str ''.docx'']),
      (str ''pdf'', [str ''.pdf'']),
      (str ''excel'', [str ''.xls'', str ''.xlsx'']),
      (str ''markdown'', [str ''.md'']),
      (str ''txt'', [str ''.txt''])]"

text \<open>\<open>os.path.join\<close> of two components and \<open>os.path.splitext\<close>, as \<open>posixpath\<close> defines
  them: the extension starts at the last dot of the last component, unless only dots
  precede it there.\<close>

definition path_join :: "pystr \<Rightarrow> pystr \<Rightarrow> pystr" where
  "path_join a b =
     (if b \<noteq> [] \<and> hd b = 47 then b
      else if a = [] \<or> last a = 47 then a @ b
      else a @ [47] @ b)"

definition splitext :: "pystr \<Rightarrow> pystr \<times> pystr" where
  "splitext p =
     (let name = basename p;
          after = rev (takeWhile (\<lambda>c. c \<noteq> 46) (rev name));
          stem = take (length name - length after - 1) name
      in if 46 \<in> set name \<and> (\<exists>c \<in> set stem. c \<noteq> 46)
         then (take (length p - length after - 1) p, 46 # after)
         else (p, []))"

text \<open>\<open>str.lower()\<close> on the letters A to Z; the other code points are left as they are
  (none of them is lowered to a string of the allowlist).\<close>

definition lower :: "pystr \<Rightarrow> pystr" where
  "lower s = map (\<lambda>c. if 65 \<le> c \<and> c \<le> 90 then c + 32 else c) s"

definition supported :: "pystr \<Rightarrow> bool" where
  "supported ext \<longleftrightarrow> (\<exists>exts \<in> set (map snd SUPPORTED_FILE_TYPES). ext \<in> set exts)"

text \<open>
  What the script finds around it: the environment variables, the file system and, for
  each HTTP call of the client, the outcome of that call.
\<close>

record env =
  env_api_key :: "pystr option"
  env_api_url :: "pystr option"
  sent_list_datasets :: "exn + response"
  path_exists :: "pystr \<Rightarrow> bool"
  path_isdir :: "pystr \<Rightarrow> bool"
  listdir :: "pystr \<Rightarrow> exn + pystr list"
  path_isfile :: "pystr \<Rightarrow> bool"
  open_rb :: "pystr \<Rightarrow> exn option"
  sent_upload :: "pystr \<Rightarrow> exn + response"
  sent_parse :: "json list \<Rightarrow> exn + response"

text \<open>The literals the script prints or raises.\<close>

definition msg_init :: pystr where
  "msg_init = str ''[INFO] '' @ [23458, 25143, 31471, 21021, 22987, 21270, 25104, 21151]"

definition msg_lookup :: pystr where
  "msg_lookup = str ''[INFO] '' @ [26597, 25214] @ str ''/'' @ [21019, 24314, 25968, 25454, 38598] @ str '': ''"

definition msg_not_found :: pystr where
  "msg_not_found = str ''[INFO] '' @ [26410, 25214, 21040, 25968, 25454, 38598] @ str '': ''"

definition msg_missing :: "pystr \<Rightarrow> pystr" where
  "msg_missing dataset_name =
     [25968, 25454, 38598] @ str '' '' @ dataset_name @ str '' '' @ [19981, 23384, 22312]"

definition msg_found :: pystr where
  "msg_found = str ''[INFO] '' @ [25214, 21040, 29616, 26377, 25968, 25454, 38598, 65292] @ str ''ID: ''"

definition msg_scan :: pystr where
  "msg_scan = str ''[INFO] '' @ [25195, 25551, 30446, 24405] @ str '': ''"

definition msg_no_dir :: pystr where
  "msg_no_dir = [25991, 26723, 30446, 24405, 19981, 23384, 22312] @ str '': ''"

definition msg_not_dir :: pystr where
  "msg_not_dir = [36335, 24452, 19981, 26159, 30446, 24405] @ str '': ''"

definition msg_skip :: pystr where
  "msg_skip = str ''[WARN] '' @ [36339, 36807, 19981, 25903, 25345, 30340, 25991, 20214, 31867, 22411] @ str '': ''"

definition msg_no_files :: pystr where
  "msg_no_files = str ''[INFO] '' @ [26410, 25214, 21040, 38656, 35201, 19978, 20256, 30340, 25903, 25345, 31867, 22411, 25991, 20214]"

definition msg_ready :: pystr where
  "msg_ready = str ''[INFO] '' @ [20934, 22791, 19978, 20256, 25991, 20214] @ str '': ''"

definition msg_start :: pystr where
  "msg_start = str ''[INFO] '' @ [24320, 22987, 19978, 20256, 25991, 20214] @ str '': ''"

definition msg_uploaded :: pystr where
  "msg_uploaded = str ''[INFO] '' @ [25991, 20214, 19978, 20256, 25104, 21151, 65292, 25991, 26723] @ str ''ID: ''"

definition msg_no_doc :: pystr where
  "msg_no_doc = str ''[WARN] '' @ [25991, 20214, 19978, 20256, 26410, 36820, 22238, 26377, 25928, 25991, 26723, 20449, 24687] @ str '': ''"

definition msg_none_uploaded :: pystr where
  "msg_none_uploaded = str ''[INFO] '' @ [26080, 25991, 20214, 19978, 20256, 25104, 21151, 65292, 36339, 36807, 35299, 26512, 27493, 39588]"

definition msg_parse :: pystr where
  "msg_parse = str ''[INFO] '' @ [24320, 22987, 35302, 21457, 35299, 26512, 65292, 25991, 26723, 25968, 37327] @ str '': ''"

definition msg_parse_ok :: pystr where
  "msg_parse_ok = str ''[INFO] '' @ [35299, 26512, 35831, 27714, 25552, 20132, 25104, 21151, 65292, 26381, 21153, 31471, 21709, 24212] @ str '': ''"

definition msg_parse_failed :: pystr where
  "msg_parse_failed = str ''[WARN] '' @ [35299, 26512, 35831, 27714, 25552, 20132, 22833, 36133, 65292, 38169, 35823, 20449, 24687] @ str '': ''"

definition msg_error :: pystr where
  "msg_error = str ''[ERROR] '' @ [25191, 34892, 36807, 31243, 20013, 21457, 29983, 24322, 24120] @ str '': ''"

definition msg_unknown_error :: pystr where
  "msg_unknown_error = str ''[ERROR] '' @ [21457, 29983, 26410, 30693, 24322, 24120] @ str '': ''"

text \<open>Step 2, the loop over \<open>os.listdir(doc_dir)\<close> with its accumulator \<open>file_paths\<close>.\<close>

fun scan :: "env \<Rightarrow> pystr \<Rightarrow> pystr list \<Rightarrow> pystr list \<Rightarrow> pystr list run" where
  "scan E doc_dir file_paths [] = ret file_paths"
| "scan E doc_dir file_paths (filename # rest) =
     seq (emit (PathIsFile (path_join doc_dir filename))) (\<lambda>_.
       if path_isfile E (path_join doc_dir filename) then
         (if supported (lower (snd (splitext filename))) then
            scan E doc_dir (file_paths @ [path_join doc_dir filename]) rest
          else
            seq (emit (Print msg_skip (ArgStr filename))) (\<lambda>_.
              scan E doc_dir file_paths rest))
       else scan E doc_dir file_paths rest)"

text \<open>\<open>docs[0]\<close> on a decoded value.\<close>

fun py_first :: "json \<Rightarrow> exn + json" where
  "py_first (JArray (x # xs)) = Inr x"
| "py_first (JArray []) = Inl IndexError"
| "py_first (JString (c # cs)) = Inr (JString [c])"
| "py_first (JString []) = Inl IndexError"
| "py_first (JObject kvs) = Inl KeyError"
| "py_first _ = Inl TypeError"

text \<open>Step 3, the loop over \<open>file_paths\<close> with its accumulator \<open>uploaded_doc_ids\<close>.\<close>

fun upload_all ::
    "env \<Rightarrow> lib \<Rightarrow> client \<Rightarrow> pystr \<Rightarrow> json list \<Rightarrow> pystr list \<Rightarrow> json list run" where
  "upload_all E L self dataset_id uploaded_doc_ids [] = ret uploaded_doc_ids"
| "upload_all E L self dataset_id uploaded_doc_ids (file_path # rest) =
     seq (emit (OpenFile file_path)) (\<lambda>_.
     (case open_rb E file_path of
        Some e \<Rightarrow> raise e
      | None \<Rightarrow>
          seq (emit (Print msg_start (ArgStr (basename file_path)))) (\<lambda>_.
          seq (emit (UploadCall dataset_id file_path)) (\<lambda>_.
          seq (upload_documents L self dataset_id [file_path] (sent_upload E file_path)) (\<lambda>docs.
            if truthy docs then
              seq (lift (py_first docs)) (\<lambda>doc.
              seq (lift (py_get doc (str ''id'') JNull)) (\<lambda>doc_id.
              seq (emit (Print msg_uploaded (ArgJson doc_id))) (\<lambda>_.
                upload_all E L self dataset_id (uploaded_doc_ids @ [doc_id]) rest)))
            else
              seq (emit (Print msg_no_doc (ArgStr file_path))) (\<lambda>_.
                upload_all E L self dataset_id uploaded_doc_ids rest))))))"

text \<open>Steps 2 to 4, run once the dataset is known.\<close>

definition scan_upload_parse :: "env \<Rightarrow> lib \<Rightarrow> client \<Rightarrow> pystr \<Rightarrow> pystr \<Rightarrow> unit run" where
  "scan_upload_parse E L self dataset_id doc_dir =
     seq (emit (Print msg_scan (ArgStr doc_dir))) (\<lambda>_.
     seq (emit (PathExists doc_dir)) (\<lambda>_.
     if \<not> path_exists E doc_dir then
       raise (FileNotFoundError (Value (JString (msg_no_dir @ doc_dir))))
     else
     seq (emit (PathIsDir doc_dir)) (\<lambda>_.
     if \<not> path_isdir E doc_dir then
       raise (NotADirectoryError (Value (JString (msg_not_dir @ doc_dir))))
     else
     seq (emit (ListDir doc_dir)) (\<lambda>_.
     seq (lift (listdir E doc_dir)) (\<lambda>filenames.
     seq (scan E doc_dir [] filenames) (\<lambda>file_paths.
     if file_paths = [] then emit (Print msg_no_files NoArg)
     else
     seq (emit (Print msg_ready (ArgStrs (map basename file_paths)))) (\<lambda>_.
     seq (upload_all E L self dataset_id [] file_paths) (\<lambda>uploaded_doc_ids.
     if uploaded_doc_ids = [] then emit (Print msg_none_uploaded NoArg)
     else
     seq (emit (Print msg_parse (ArgInt (int (length uploaded_doc_ids))))) (\<lambda>_.
     seq (emit (ParseCall dataset_id uploaded_doc_ids)) (\<lambda>_.
     seq (parse_documents (sent_parse E uploaded_doc_ids)) (\<lambda>parse_result.
     seq (lift (py_get parse_result (str ''code'') JNull)) (\<lambda>code.
     if py_eq_zero code then emit (Print msg_parse_ok (ArgJson parse_result))
     else
     seq (lift (py_get parse_result (str ''message'') JNull)) (\<lambda>message.
       emit (Print msg_parse_failed (ArgJson message)))))))))))))))"

text \<open>The body of the \<open>try\<close> block: the client, step 1 (the lookup by name) and the rest.\<close>

definition try_body :: "env \<Rightarrow> lib \<Rightarrow> pystr \<Rightarrow> pystr \<Rightarrow> unit run" where
  "try_body E L dataset_name doc_dir =
     seq (lift (init None None (env_api_key E) (env_api_url E))) (\<lambda>self.
     seq (emit (Print msg_init NoArg)) (\<lambda>_.
     seq (emit (Print msg_lookup (ArgStr dataset_name))) (\<lambda>_.
     seq (emit (ListDatasetsCall dataset_name)) (\<lambda>_.
     seq (list_datasets L (sent_list_datasets E)) (\<lambda>datasets.
     (case datasets of
        [] \<Rightarrow>
          seq (emit (Print msg_not_found (ArgStr dataset_name))) (\<lambda>_.
            raise (ResourceNotFoundError (Value (JString (msg_missing dataset_name)))))
      | dataset # _ \<Rightarrow>
          seq (emit (Print msg_found (ArgStr (ds_id dataset)))) (\<lambda>_.
            scan_upload_parse E L self (ds_id dataset) doc_dir)))))))"

text \<open>The two \<open>except\<close> clauses print the exception and raise it again.\<close>

fun named_in_except :: "exn \<Rightarrow> bool" where
  "named_in_except (APIError m) = True"
| "named_in_except (ResourceNotFoundError m) = True"
| "named_in_except (FileNotFoundError m) = True"
| "named_in_except (NotADirectoryError m) = True"
| "named_in_except _ = False"

definition upload_and_parse_documents :: "env \<Rightarrow> lib \<Rightarrow> pystr \<Rightarrow> pystr \<Rightarrow> unit run" where
  "upload_and_parse_documents E L dataset_name doc_dir =
     (case try_body E L dataset_name doc_dir of
        (Inl e, t) \<Rightarrow>
          (Inl e, t @ [Print (if named_in_except e then msg_error else msg_unknown_error) (ArgExn e)])
      | (Inr u, t) \<Rightarrow> (Inr u, t))"

section \<open>Properties\<close>

subsection \<open>Auxiliary facts\<close>

lemma str_keys_distinct [simp]:
  "str ''code'' \<noteq> str ''data''" "str ''code'' \<noteq> str ''message''"
  "str ''message'' \<noteq> str ''data''" "str ''data'' \<noteq> str ''code''"
  "str ''message'' \<noteq> str ''code''" "str ''data'' \<noteq> str ''message''"
  by (simp_all add: str_def)

lemma request_json_Inl: "request sent False = Inl e \<Longrightarrow> request_json sent = Inl e"
  by (simp add: request_json_def)

lemma request_json_Decoded: "request sent False = Inr (Decoded d) \<Longrightarrow> request_json sent = Inr d"
  by (simp add: request_json_def)

lemma request_transport: "request (Inl e) stream = Inl e"
  by (simp add: request_def)

lemma request_never_raw: "request sent False \<noteq> Inr (Raw r)"
  by (auto simp: request_def split: sum.splits option.splits)

lemma seq_raise [simp]: "seq (raise e) f = raise e"
  by (simp add: seq_def raise_def)

lemma seq_ret [simp]: "seq (ret x) f = f x"
  by (simp add: seq_def ret_def split: prod.splits)

lemma seq_emit: "seq (emit ev) f = (fst (f ()), ev # snd (f ()))"
  by (simp add: seq_def emit_def split: prod.splits)

lemma seq_lift_Inr [simp]: "seq (lift (Inr x)) f = f x"
  by (simp add: seq_def lift_def split: prod.splits)

lemma seq_lift_Inl [simp]: "seq (lift (Inl e)) f = raise e"
  by (simp add: seq_def lift_def raise_def)

lemma fst_seq: "fst (seq m f) = (case fst m of Inl e \<Rightarrow> Inl e | Inr x \<Rightarrow> fst (f x))"
  by (simp add: seq_def split: prod.splits sum.splits)

lemma fst_emit [simp]: "fst (emit ev) = Inr ()"
  by (simp add: emit_def)

lemma fst_ret [simp]: "fst (ret x) = Inr x"
  by (simp add: ret_def)

lemma fst_raise [simp]: "fst (raise e) = Inl e"
  by (simp add: raise_def)

lemma utf8_ascii: "\<forall>b \<in> set bs. b < 128 \<Longrightarrow> utf8 bs = Some bs"
  by (induction bs) auto

subsection \<open>The response interpreter\<close>

text \<open>
  C1.  For a response that is not streamed, has a status of 400 or more and a JSON body
  with fields (a body that decodes to an object), \<open>_request\<close> raises the error of the
  status, carrying the \<open>message\<close> field of the body: \<open>AuthenticationError\<close> for 401 and
  \<open>ResourceNotFoundError\<close> for 404, whose argument is the \<open>message\<close> field, and \<open>APIError\<close>
  for every other status, whose text is \<open>API request failed: \<close> followed by the \<open>message\<close>
  field.  When the body has no \<open>message\<close> field the default text of the branch stands in
  its place.
\<close>

theorem request_error_status:
  assumes "status_code r \<ge> 400" and "body_json r = Some (JObject kvs)"
  shows "request (Inr r) False =
     (if status_code r = 401 then
        Inl (AuthenticationError (Value (case map_of kvs (str ''message'') of Some m \<Rightarrow> m
               | None \<Rightarrow> JString (str ''Authentication failed''))))
      else if status_code r = 404 then
        Inl (ResourceNotFoundError (Value (case map_of kvs (str ''message'') of Some m \<Rightarrow> m
               | None \<Rightarrow> JString (str ''Resource not found''))))
      else
        Inl (APIError (Format (str ''API request failed: '')
               (case map_of kvs (str ''message'') of Some m \<Rightarrow> m
                | None \<Rightarrow> JString (str ''Unknown error'')))))"
  using assms by (simp add: request_def)

theorem request_error_status_witness:
  "request (Inr \<lparr>status_code = 401, body_text = [],
        body_json = Some (JObject [(str ''message'', JString (str ''bad key''))]),
        iter_lines = [], iter_content = []\<rparr>) False
     = Inl (AuthenticationError (Value (JString (str ''bad key''))))
   \<and> request (Inr \<lparr>status_code = 404, body_text = [],
        body_json = Some (JObject [(str ''message'', JString (str ''no such dataset''))]),
        iter_lines = [], iter_content = []\<rparr>) False
     = Inl (ResourceNotFoundError (Value (JString (str ''no such dataset''))))
   \<and> request (Inr \<lparr>status_code = 500, body_text = [],
        body_json = Some (JObject [(str ''message'', JString (str ''boom''))]),
        iter_lines = [], iter_content = []\<rparr>) False
     = Inl (APIError (Format (str ''API request failed: '') (JString (str ''boom''))))"
  using
    request_error_status [of "\<lparr>status_code = 401, body_text = [],
        body_json = Some (JObject [(str ''message'', JString (str ''bad key''))]),
        iter_lines = [], iter_content = []\<rparr>" "[(str ''message'', JString (str ''bad key''))]"]
    request_error_status [of "\<lparr>status_code = 404, body_text = [],
        body_json = Some (JObject [(str ''message'', JString (str ''no such dataset''))]),
        iter_lines = [], iter_content = []\<rparr>" "[(str ''message'', JString (str ''no such dataset''))]"]
    request_error_status [of "\<lparr>status_code = 500, body_text = [],
        body_json = Some (JObject [(str ''message'', JString (str ''boom''))]),
        iter_lines = [], iter_content = []\<rparr>" "[(str ''message'', JString (str ''boom''))]"]
  by simp

text \<open>
  A body that decodes to a value that is no object has no fields at all: there \<open>data.get\<close>
  raises \<open>AttributeError\<close>.
\<close>

lemma request_string_body:
  "request (Inr \<lparr>status_code = 401, body_text = str ''\"Unauthorized\"'',
       body_json = Some (JString (str ''Unauthorized'')),
       iter_lines = [], iter_content = []\<rparr>) False = Inl AttributeError"
  by (simp add: request_def)

text \<open>
  C10.  In \<open>_request\<close> without \<open>stream\<close> the body is decoded before the status is looked at:
  when the body is not valid JSON, \<open>APIError\<close> is raised whatever the status is, also for
  401 and 404.
\<close>

theorem request_invalid_json:
  assumes "body_json r = None"
  shows "request (Inr r) False =
           Inl (APIError (Value (JString (str ''Invalid JSON response: '' @ body_text r))))"
  using assms by (simp add: request_def)

theorem request_invalid_json_witness:
  "request (Inr \<lparr>status_code = 401, body_text = str ''denied'', body_json = None,
       iter_lines = [], iter_content = []\<rparr>) False
     = Inl (APIError (Value (JString (str ''Invalid JSON response: '' @ str ''denied''))))
   \<and> request (Inr \<lparr>status_code = 404, body_text = str ''<html>'', body_json = None,
       iter_lines = [], iter_content = []\<rparr>) False
     = Inl (APIError (Value (JString (str ''Invalid JSON response: '' @ str ''<html>''))))"
  using
    request_invalid_json [of "\<lparr>status_code = 401, body_text = str ''denied'', body_json = None,
       iter_lines = [], iter_content = []\<rparr>"]
    request_invalid_json [of "\<lparr>status_code = 404, body_text = str ''<html>'', body_json = None,
       iter_lines = [], iter_content = []\<rparr>"]
  by simp

subsection \<open>handle\_response\<close>

text \<open>
  C2, as the code has it.  For a decoded mapping whose \<open>code\<close> field equals 0:
  when the \<open>data\<close> field is present and is not \<open>None\<close>, \<open>handle_response\<close> returns its value;
  when \<open>data\<close> is absent or \<open>None\<close>, it returns the whole mapping unchanged.
\<close>

theorem handle_response_unwrap:
  assumes "map_of kvs (str ''code'') = Some c" and "py_eq_zero c"
  shows "(map_of kvs (str ''data'') = Some d \<and> d \<noteq> JNull
            \<longrightarrow> handle_response (JObject kvs) = Inr d)
       \<and> (map_of kvs (str ''data'') = None \<or> map_of kvs (str ''data'') = Some JNull
            \<longrightarrow> handle_response (JObject kvs) = Inr (JObject kvs))"
  using assms by (auto simp: handle_response_def)

theorem handle_response_unwrap_witness:
  "handle_response (JObject [(str ''code'', JInt 0), (str ''data'', JArray [JInt 7])])
     = Inr (JArray [JInt 7])
   \<and> handle_response (JObject [(str ''code'', JInt 0)]) = Inr (JObject [(str ''code'', JInt 0)])"
  using
    handle_response_unwrap [of "[(str ''code'', JInt 0), (str ''data'', JArray [JInt 7])]"
      "JInt 0" "JArray [JInt 7]"]
    handle_response_unwrap [of "[(str ''code'', JInt 0)]" "JInt 0" JNull]
  by simp

text \<open>
  C2 as stated fails when the \<open>data\<close> field is present with the value \<open>null\<close>: the value
  of \<open>data\<close> is \<open>None\<close>, and the whole envelope is returned.
\<close>

theorem handle_response_null_data:
  "handle_response (JObject [(str ''code'', JInt 0), (str ''data'', JNull)])
     = Inr (JObject [(str ''code'', JInt 0), (str ''data'', JNull)])
   \<and> handle_response (JObject [(str ''code'', JInt 0), (str ''data'', JNull)]) \<noteq> Inr JNull"
  by (simp add: handle_response_def)

text \<open>
  C3.  For a decoded mapping whose \<open>code\<close> field is present and not equal to 0 (Python's
  \<open>!=\<close>), \<open>handle_response\<close> raises \<open>APIError\<close> with the \<open>message\<close> field (a default text when
  it is absent) in its text; the HTTP status is no argument of \<open>handle_response\<close>.  A
  mapping without a \<open>code\<close> field is returned unchanged.
\<close>

theorem handle_response_error:
  "(map_of kvs (str ''code'') = Some c \<and> \<not> py_eq_zero c \<longrightarrow>
      handle_response (JObject kvs) =
        Inl (APIError (Format handle_response_prefix
               (case map_of kvs (str ''message'') of Some m \<Rightarrow> m
                | None \<Rightarrow> JString handle_response_unknown))))
   \<and> (map_of kvs (str ''code'') = None \<longrightarrow> handle_response (JObject kvs) = Inr (JObject kvs))"
  by (auto simp: handle_response_def)

theorem handle_response_error_witness:
  "handle_response (JObject [(str ''code'', JInt 102), (str ''message'', JString (str ''denied''))])
     = Inl (APIError (Format handle_response_prefix (JString (str ''denied''))))
   \<and> handle_response (JObject [(str ''data'', JInt 1)]) = Inr (JObject [(str ''data'', JInt 1)])"
  using
    handle_response_error [of "[(str ''code'', JInt 102), (str ''message'', JString (str ''denied''))]"
      "JInt 102"]
    handle_response_error [of "[(str ''data'', JInt 1)]" JNull]
  by simp

subsection \<open>Propagation of errors through the facade\<close>

text \<open>
  C5.  Without \<open>stream\<close>, \<open>create_chat_completion\<close> catches the \<open>APIError\<close> that
  \<open>handle_response\<close> raises, prints it and returns \<open>None\<close>.  In every other operation an
  error propagates to the caller: the exception of the transport, the error \<open>_request\<close>
  raises, the error \<open>handle_response\<close> raises where the operation calls it, and, in the
  two operations that interpret the response themselves (\<open>upload_documents\<close> and
  \<open>download_document\<close>), the error they raise on a body that is no JSON and on a status
  of 400 or more.
\<close>

theorem errors_propagate:
  "(request sent False = Inr (Decoded d) \<and> handle_response d = Inl (APIError m) \<longrightarrow>
      create_chat_completion L False sent = (Inr PNone, [Print chat_print (ArgExn (APIError m))]))
   \<and> (meth \<noteq> CreateChatCompletion False \<longrightarrow>
        (sent = Inl e \<longrightarrow> fst (call L self meth sent) = Inl e)
      \<and> (uses_request meth = Some stream \<and> request sent stream = Inl e \<longrightarrow>
            fst (call L self meth sent) = Inl e)
      \<and> (calls_handle_response meth \<and> request sent False = Inr (Decoded d)
            \<and> handle_response d = Inl e \<longrightarrow> fst (call L self meth sent) = Inl e))
   \<and> (body_json r = None \<longrightarrow>
        fst (call L self (UploadDocuments dataset_id files) (Inr r)) =
          Inl (APIError (Value (JString (str ''Invalid JSON response: '' @ body_text r)))))
   \<and> (body_json r = Some data \<and> status_code r \<ge> 400 \<longrightarrow>
        fst (call L self (UploadDocuments dataset_id files) (Inr r)) =
          (case py_get data (str ''message'') (JString (str ''Unknown error'')) of
             Inl e' \<Rightarrow> Inl e'
           | Inr message \<Rightarrow> Inl (APIError (Format (str ''API request failed: '') message))))
   \<and> (status_code r \<ge> 400 \<longrightarrow>
        fst (call L self DownloadDocument (Inr r)) =
          (case body_json r of
             None \<Rightarrow>
               Inl (APIError (Value (JString (str ''Failed to download document: '' @ body_text r))))
           | Some data \<Rightarrow>
               (case py_get data (str ''message'') (JString (str ''Unknown error'')) of
                  Inl e' \<Rightarrow> Inl e'
                | Inr message \<Rightarrow>
                    Inl (APIError (Format (str ''Failed to download document: '') message)))))"
proof (intro conjI impI)
  assume "request sent False = Inr (Decoded d) \<and> handle_response d = Inl (APIError m)"
  then show "create_chat_completion L False sent
               = (Inr PNone, [Print chat_print (ArgExn (APIError m))])"
    by (simp add: create_chat_completion_def request_json_Decoded seq_def emit_def ret_def)
next
  assume "meth \<noteq> CreateChatCompletion False" and "sent = Inl e"
  then show "fst (call L self meth sent) = Inl e"
    by (cases meth)
       (simp_all add: create_chat_completion_def create_dataset_def list_datasets_def
          delete_datasets_def update_dataset_def upload_documents_def update_document_def
          download_document_def list_chunks_def retrieve_chunks_def get_chunk_def
          update_chunk_def delete_chunk_def parse_documents_def request_json_def
          request_transport fst_seq)
next
  assume "meth \<noteq> CreateChatCompletion False"
    and "uses_request meth = Some stream \<and> request sent stream = Inl e"
  then show "fst (call L self meth sent) = Inl e"
    by (cases meth)
       (auto simp add: create_chat_completion_def create_dataset_def list_datasets_def
          delete_datasets_def update_dataset_def update_document_def
          list_chunks_def retrieve_chunks_def get_chunk_def
          update_chunk_def delete_chunk_def parse_documents_def request_json_Inl fst_seq)
next
  assume "meth \<noteq> CreateChatCompletion False"
    and "calls_handle_response meth \<and> request sent False = Inr (Decoded d)
           \<and> handle_response d = Inl e"
  then show "fst (call L self meth sent) = Inl e"
    by (cases meth)
       (auto simp add: create_dataset_def list_datasets_def
          retrieve_chunks_def get_chunk_def parse_documents_def request_json_Decoded fst_seq)
next
  assume "body_json r = None"
  then show "fst (call L self (UploadDocuments dataset_id files) (Inr r)) =
          Inl (APIError (Value (JString (str ''Invalid JSON response: '' @ body_text r))))"
    by (simp add: upload_documents_def fst_seq)
next
  assume "body_json r = Some data \<and> status_code r \<ge> 400"
  then show "fst (call L self (UploadDocuments dataset_id files) (Inr r)) =
          (case py_get data (str ''message'') (JString (str ''Unknown error'')) of
             Inl e' \<Rightarrow> Inl e'
           | Inr message \<Rightarrow> Inl (APIError (Format (str ''API request failed: '') message)))"
    by (simp add: upload_documents_def fst_seq split: sum.splits)
next
  assume "status_code r \<ge> 400"
  then show "fst (call L self DownloadDocument (Inr r)) =
          (case body_json r of
             None \<Rightarrow>
               Inl (APIError (Value (JString (str ''Failed to download document: '' @ body_text r))))
           | Some data \<Rightarrow>
               (case py_get data (str ''message'') (JString (str ''Unknown error'')) of
                  Inl e' \<Rightarrow> Inl e'
                | Inr message \<Rightarrow>
                    Inl (APIError (Format (str ''Failed to download document: '') message))))"
    by (simp add: download_document_def fst_seq split: sum.splits option.splits)
qed

theorem errors_propagate_witness:
  "create_chat_completion
      \<lparr>loads = (\<lambda>s. None), urljoin = (\<lambda>a b. a @ b),
       validate_completion = (\<lambda>kvs. Inl (LibraryError 0)),
       validate_dataset = (\<lambda>kvs. Inl (LibraryError 0)),
       validate_chunk = (\<lambda>kvs. Inl (LibraryError 0))\<rparr> False
      (Inr \<lparr>status_code = 200, body_text = [],
         body_json = Some (JObject [(str ''code'', JInt 102), (str ''message'', JString (str ''denied''))]),
         iter_lines = [], iter_content = []\<rparr>)
     = (Inr PNone,
        [Print chat_print (ArgExn (APIError (Format handle_response_prefix (JString (str ''denied'')))))])
   \<and> fst (call
      \<lparr>loads = (\<lambda>s. None), urljoin = (\<lambda>a b. a @ b),
       validate_completion = (\<lambda>kvs. Inl (LibraryError 0)),
       validate_dataset = (\<lambda>kvs. Inl (LibraryError 0)),
       validate_chunk = (\<lambda>kvs. Inl (LibraryError 0))\<rparr>
      \<lparr>api_key = str ''key'', base_url = str ''http://host''\<rparr> CreateDataset
      (Inr \<lparr>status_code = 200, body_text = [],
         body_json = Some (JObject [(str ''code'', JInt 102), (str ''message'', JString (str ''denied''))]),
         iter_lines = [], iter_content = []\<rparr>))
     = Inl (APIError (Format handle_response_prefix (JString (str ''denied''))))
   \<and> fst (call
      \<lparr>loads = (\<lambda>s. None), urljoin = (\<lambda>a b. a @ b),
       validate_completion = (\<lambda>kvs. Inl (LibraryError 0)),
       validate_dataset = (\<lambda>kvs. Inl (LibraryError 0)),
       validate_chunk = (\<lambda>kvs. Inl (LibraryError 0))\<rparr>
      \<lparr>api_key = str ''key'', base_url = str ''http://host''\<rparr> DeleteDatasets
      (Inl (LibraryError 1))) = Inl (LibraryError 1)
   \<and> fst (call
      \<lparr>loads = (\<lambda>s. None), urljoin = (\<lambda>a b. a @ b),
       validate_completion = (\<lambda>kvs. Inl (LibraryError 0)),
       validate_dataset = (\<lambda>kvs. Inl (LibraryError 0)),
       validate_chunk = (\<lambda>kvs. Inl (LibraryError 0))\<rparr>
      \<lparr>api_key = str ''key'', base_url = str ''http://host''\<rparr> GetChunk
      (Inr \<lparr>status_code = 404, body_text = [],
         body_json = Some (JObject [(str ''message'', JString (str ''no chunk''))]),
         iter_lines = [], iter_content = []\<rparr>))
     = Inl (ResourceNotFoundError (Value (JString (str ''no chunk''))))
   \<and> fst (call
      \<lparr>loads = (\<lambda>s. None), urljoin = (\<lambda>a b. a @ b),
       validate_completion = (\<lambda>kvs. Inl (LibraryError 0)),
       validate_dataset = (\<lambda>kvs. Inl (LibraryError 0)),
       validate_chunk = (\<lambda>kvs. Inl (LibraryError 0))\<rparr>
      \<lparr>api_key = str ''key'', base_url = str ''http://host''\<rparr> (UploadDocuments (str ''ds1'') [str ''a.pdf''])
      (Inr \<lparr>status_code = 502, body_text = str ''<html>'', body_json = None,
         iter_lines = [], iter_content = []\<rparr>))
     = Inl (APIError (Value (JString (str ''Invalid JSON response: '' @ str ''<html>''))))
   \<and> fst (call
      \<lparr>loads = (\<lambda>s. None), urljoin = (\<lambda>a b. a @ b),
       validate_completion = (\<lambda>kvs. Inl (LibraryError 0)),
       validate_dataset = (\<lambda>kvs. Inl (LibraryError 0)),
       validate_chunk = (\<lambda>kvs. Inl (LibraryError 0))\<rparr>
      \<lparr>api_key = str ''key'', base_url = str ''http://host''\<rparr> (UploadDocuments (str ''ds1'') [str ''a.pdf''])
      (Inr \<lparr>status_code = 500, body_text = [],
         body_json = Some (JObject [(str ''message'', JString (str ''boom''))]),
         iter_lines = [], iter_content = []\<rparr>))
     = Inl (APIError (Format (str ''API request failed: '') (JString (str ''boom''))))
   \<and> fst (call
      \<lparr>loads = (\<lambda>s. None), urljoin = (\<lambda>a b. a @ b),
       validate_completion = (\<lambda>kvs. Inl (LibraryError 0)),
       validate_dataset = (\<lambda>kvs. Inl (LibraryError 0)),
       validate_chunk = (\<lambda>kvs. Inl (LibraryError 0))\<rparr>
      \<lparr>api_key = str ''key'', base_url = str ''http://host''\<rparr> DownloadDocument
      (Inr \<lparr>status_code = 500, body_text = [],
         body_json = Some (JObject [(str ''message'', JString (str ''boom''))]),
         iter_lines = [], iter_content = []\<rparr>))
     = Inl (APIError (Format (str ''Failed to download document: '') (JString (str ''boom''))))"
proof -
  let ?L = "\<lparr>loads = (\<lambda>s. None), urljoin = (\<lambda>a b. a @ b),
       validate_completion = (\<lambda>kvs. Inl (LibraryError 0)),
       validate_dataset = (\<lambda>kvs. Inl (LibraryError 0)),
       validate_chunk = (\<lambda>kvs. Inl (LibraryError 0))\<rparr>"
  let ?self = "\<lparr>api_key = str ''key'', base_url = str ''http://host''\<rparr>"
  let ?body = "JObject [(str ''code'', JInt 102), (str ''message'', JString (str ''denied''))]"
  let ?sent = "Inr \<lparr>status_code = 200, body_text = [], body_json = Some ?body,
                      iter_lines = [], iter_content = []\<rparr> :: exn + response"
  let ?m = "Format handle_response_prefix (JString (str ''denied''))"
  let ?nf = "JObject [(str ''message'', JString (str ''no chunk''))]"
  let ?sent404 = "Inr \<lparr>status_code = 404, body_text = [], body_json = Some ?nf,
                      iter_lines = [], iter_content = []\<rparr> :: exn + response"
  let ?e404 = "ResourceNotFoundError (Value (JString (str ''no chunk'')))"
  let ?r502 = "\<lparr>status_code = 502, body_text = str ''<html>'', body_json = None,
                 iter_lines = [], iter_content = []\<rparr>"
  let ?boom = "JObject [(str ''message'', JString (str ''boom''))]"
  let ?r500 = "\<lparr>status_code = 500, body_text = [], body_json = Some ?boom,
                 iter_lines = [], iter_content = []\<rparr>"
  have r: "request ?sent False = Inr (Decoded ?body)"
    by (simp add: request_def)
  have h: "handle_response ?body = Inl (APIError ?m)"
    by (simp add: handle_response_def)
  have r404: "request ?sent404 False = Inl ?e404"
    by (simp add: request_def)
  show ?thesis
    using r h r404
      errors_propagate [of ?sent ?body ?m ?L CreateDataset "APIError ?m" ?self False
        ?r502 "str ''ds1''" "[str ''a.pdf'']" ?boom]
      errors_propagate [of "Inl (LibraryError 1)" ?body ?m ?L DeleteDatasets "LibraryError 1" ?self
        False ?r500 "str ''ds1''" "[str ''a.pdf'']" ?boom]
      errors_propagate [of ?sent404 ?body ?m ?L GetChunk ?e404 ?self False
        ?r500 "str ''ds1''" "[str ''a.pdf'']" ?boom]
    by simp
qed

subsection \<open>upload\_documents\<close>

text \<open>
  C9, as the code has it.  For a response with a status of 400 or more whose body decodes
  to a JSON object, \<open>upload_documents\<close> raises \<open>APIError\<close>, also for 401 and 404; and for a
  body that decodes to any JSON value it raises neither \<open>AuthenticationError\<close> nor
  \<open>ResourceNotFoundError\<close>.
\<close>

theorem upload_documents_error_status:
  assumes "status_code r \<ge> 400"
  shows "(body_json r = Some (JObject kvs) \<longrightarrow>
            fst (upload_documents L self dataset_id files (Inr r)) =
              Inl (APIError (Format (str ''API request failed: '')
                     (case map_of kvs (str ''message'') of Some m \<Rightarrow> m
                      | None \<Rightarrow> JString (str ''Unknown error'')))))
       \<and> (body_json r = Some data \<longrightarrow>
            fst (upload_documents L self dataset_id files (Inr r)) \<noteq> Inl (AuthenticationError m')
          \<and> fst (upload_documents L self dataset_id files (Inr r)) \<noteq> Inl (ResourceNotFoundError m'))"
  using assms
  by (cases data) (auto simp: upload_documents_def fst_seq)

theorem upload_documents_error_status_witness:
  "fst (upload_documents
      \<lparr>loads = (\<lambda>s. None), urljoin = (\<lambda>a b. a @ b),
       validate_completion = (\<lambda>kvs. Inl (LibraryError 0)),
       validate_dataset = (\<lambda>kvs. Inl (LibraryError 0)),
       validate_chunk = (\<lambda>kvs. Inl (LibraryError 0))\<rparr>
      \<lparr>api_key = str ''key'', base_url = str ''http://host''\<rparr>
      (str ''ds1'') [str ''a.pdf'']
      (Inr \<lparr>status_code = 401, body_text = [],
         body_json = Some (JObject [(str ''message'', JString (str ''bad key''))]),
         iter_lines = [], iter_content = []\<rparr>))
     = Inl (APIError (Format (str ''API request failed: '') (JString (str ''bad key''))))"
  using upload_documents_error_status [of
      "\<lparr>status_code = 401, body_text = [],
         body_json = Some (JObject [(str ''message'', JString (str ''bad key''))]),
         iter_lines = [], iter_content = []\<rparr>"
      "[(str ''message'', JString (str ''bad key''))]"
      "\<lparr>loads = (\<lambda>s. None), urljoin = (\<lambda>a b. a @ b),
       validate_completion = (\<lambda>kvs. Inl (LibraryError 0)),
       validate_dataset = (\<lambda>kvs. Inl (LibraryError 0)),
       validate_chunk = (\<lambda>kvs. Inl (LibraryError 0))\<rparr>"
      "\<lparr>api_key = str ''key'', base_url = str ''http://host''\<rparr>"
      "str ''ds1''" "[str ''a.pdf'']"]
  by simp

text \<open>
  C9 as stated fails for a JSON body that is not an object: on the status 401 with the
  body \<open>"Unauthorized"\<close> \<open>data.get\<close> raises \<open>AttributeError\<close>, not \<open>APIError\<close>.
\<close>

theorem upload_documents_string_body:
  "fst (upload_documents
      \<lparr>loads = (\<lambda>s. None), urljoin = (\<lambda>a b. a @ b),
       validate_completion = (\<lambda>kvs. Inl (LibraryError 0)),
       validate_dataset = (\<lambda>kvs. Inl (LibraryError 0)),
       validate_chunk = (\<lambda>kvs. Inl (LibraryError 0))\<rparr>
      \<lparr>api_key = str ''key'', base_url = str ''http://host''\<rparr>
      (str ''ds1'') [str ''a.pdf'']
      (Inr \<lparr>status_code = 401, body_text = str ''\"Unauthorized\"'',
         body_json = Some (JString (str ''Unauthorized'')),
         iter_lines = [], iter_content = []\<rparr>)) = Inl AttributeError"
  by (simp add: upload_documents_def fst_seq)

text \<open>
  C7, as the code has it.  A call of \<open>upload_documents\<close> that succeeds was answered with
  a status below 400 and a body that decodes to a JSON object, and what the caller
  receives is \<open>data.get("data", [])\<close>: the decoded value of the \<open>data\<close> field as it is (the
  plain mappings the server sent), or the empty list when the field is absent.  No model
  instance is built.
\<close>

theorem upload_documents_success:
  assumes "fst (call L self (UploadDocuments dataset_id files) sent) = Inr v"
  shows "\<exists>r kvs. sent = Inr r \<and> status_code r < 400 \<and> body_json r = Some (JObject kvs)
           \<and> v = PJson (case map_of kvs (str ''data'') of Some docs \<Rightarrow> docs | None \<Rightarrow> JArray [])"
proof (cases sent)
  case (Inl e)
  with assms show ?thesis
    by (simp add: upload_documents_def fst_seq)
next
  case (Inr r)
  show ?thesis
  proof (cases "body_json r")
    case None
    with assms Inr show ?thesis
      by (simp add: upload_documents_def fst_seq)
  next
    case (Some data)
    show ?thesis
    proof (cases "status_code r \<ge> 400")
      case True
      with assms Inr Some show ?thesis
        by (simp add: upload_documents_def fst_seq split: sum.splits)
    next
      case False
      with assms Inr Some show ?thesis
        by (cases data) (auto simp: upload_documents_def fst_seq)
    qed
  qed
qed

theorem upload_documents_success_witness:
  "\<exists>r kvs.
      (Inr \<lparr>status_code = 200, body_text = [],
         body_json = Some (JObject [(str ''code'', JInt 0),
           (str ''data'', JArray [JObject [(str ''id'', JString (str ''d1''))]])]),
         iter_lines = [], iter_content = []\<rparr> :: exn + response) = Inr r
      \<and> status_code r < 400 \<and> body_json r = Some (JObject kvs)
      \<and> PJson (JArray [JObject [(str ''id'', JString (str ''d1''))]])
          = PJson (case map_of kvs (str ''data'') of Some docs \<Rightarrow> docs | None \<Rightarrow> JArray [])"
proof -
  let ?L = "\<lparr>loads = (\<lambda>s. None), urljoin = (\<lambda>a b. a @ b),
       validate_completion = (\<lambda>kvs. Inl (LibraryError 0)),
       validate_dataset = (\<lambda>kvs. Inl (LibraryError 0)),
       validate_chunk = (\<lambda>kvs. Inl (LibraryError 0))\<rparr>"
  let ?self = "\<lparr>api_key = str ''key'', base_url = str ''http://host''\<rparr>"
  let ?sent = "Inr \<lparr>status_code = 200, body_text = [],
         body_json = Some (JObject [(str ''code'', JInt 0),
           (str ''data'', JArray [JObject [(str ''id'', JString (str ''d1''))]])]),
         iter_lines = [], iter_content = []\<rparr> :: exn + response"
  have ok: "fst (call ?L ?self (UploadDocuments (str ''ds1'') [str ''a.pdf'']) ?sent)
              = Inr (PJson (JArray [JObject [(str ''id'', JString (str ''d1''))]]))"
    by (simp add: upload_documents_def fst_seq)
  show ?thesis
    using upload_documents_success [OF ok] .
qed

text \<open>
  C7 as stated fails: on the status 200 with the body
  \<open>{"code": 0, "data": [{"id": "d1"}]}\<close> the caller receives the list of plain mappings
  (\<open>PJson\<close>), not a list of \<open>Document\<close> instances (\<open>PDocuments\<close>).
\<close>

theorem upload_documents_returns_raw:
  "fst (call
      \<lparr>loads = (\<lambda>s. None), urljoin = (\<lambda>a b. a @ b),
       validate_completion = (\<lambda>kvs. Inl (LibraryError 0)),
       validate_dataset = (\<lambda>kvs. Inl (LibraryError 0)),
       validate_chunk = (\<lambda>kvs. Inl (LibraryError 0))\<rparr>
      \<lparr>api_key = str ''key'', base_url = str ''http://host''\<rparr> (UploadDocuments (str ''ds1'') [str ''a.pdf''])
      (Inr \<lparr>status_code = 200, body_text = [],
         body_json = Some (JObject [(str ''code'', JInt 0),
           (str ''data'', JArray [JObject [(str ''id'', JString (str ''d1''))]])]),
         iter_lines = [], iter_content = []\<rparr>))
     = Inr (PJson (JArray [JObject [(str ''id'', JString (str ''d1''))]]))
   \<and> fst (call
      \<lparr>loads = (\<lambda>s. None), urljoin = (\<lambda>a b. a @ b),
       validate_completion = (\<lambda>kvs. Inl (LibraryError 0)),
       validate_dataset = (\<lambda>kvs. Inl (LibraryError 0)),
       validate_chunk = (\<lambda>kvs. Inl (LibraryError 0))\<rparr>
      \<lparr>api_key = str ''key'', base_url = str ''http://host''\<rparr> (UploadDocuments (str ''ds1'') [str ''a.pdf''])
      (Inr \<lparr>status_code = 200, body_text = [],
         body_json = Some (JObject [(str ''code'', JInt 0),
           (str ''data'', JArray [JObject [(str ''id'', JString (str ''d1''))]])]),
         iter_lines = [], iter_content = []\<rparr>))
     \<noteq> Inr (PDocuments [])"
  by (simp add: upload_documents_def fst_seq)

subsection \<open>The body of create\_dataset\<close>

text \<open>
  C6 does not hold of the code.  When \<open>embedding_model\<close> and \<open>description\<close> are not set,
  the body \<open>create_dataset\<close> sends still has both keys, with the value \<open>null\<close>.
\<close>

theorem create_dataset_data_unset:
  "map_of (create_dataset_data name None None chunk_method parser_config permission)
       (str ''embedding_model'') = Some JNull
   \<and> map_of (create_dataset_data name None None chunk_method parser_config permission)
       (str ''description'') = Some JNull"
  by (simp add: create_dataset_data_def str_def)

text \<open>The operations beside it leave such keys out.\<close>

lemma update_dataset_data_unset:
  "update_dataset_data None None None = []"
  by (simp add: update_dataset_data_def)

lemma retrieve_chunks_data_unset:
  "map_of (retrieve_chunks_data q None None p ps st vw k None kw hl) (str ''rerank_id'') = None
   \<and> map_of (retrieve_chunks_data q None None p ps st vw k None kw hl) (str ''dataset_ids'') = None"
  by (simp add: retrieve_chunks_data_def str_def)

subsection \<open>Streaming chat completion\<close>

text \<open>
  What the loop does right: when every line decodes, the chunks are the values
  \<open>json.loads\<close> accepts, in the order of the lines; empty lines, lines that are empty
  once stripped and lines \<open>json.loads\<close> rejects add nothing and raise nothing.
\<close>

lemma stream_chunks_collects:
  "\<forall>l \<in> set lines. json_line l \<noteq> None \<Longrightarrow>
   stream_chunks parse chunks lines =
     Inr (chunks @ List.map_filter
            (\<lambda>l. case json_line l of
                   Some jl \<Rightarrow> if l \<noteq> [] \<and> jl \<noteq> [] then parse jl else None
                 | None \<Rightarrow> None) lines)"
proof (induction lines arbitrary: chunks)
  case Nil
  then show ?case by (simp add: List.map_filter_simps)
next
  case (Cons line rest)
  then obtain jl where jl: "json_line line = Some jl" by auto
  from Cons have rest: "\<And>cs. stream_chunks parse cs rest =
     Inr (cs @ List.map_filter
            (\<lambda>l. case json_line l of
                   Some jl \<Rightarrow> if l \<noteq> [] \<and> jl \<noteq> [] then parse jl else None
                 | None \<Rightarrow> None) rest)"
    by simp
  show ?case
    by (cases "parse jl") (simp_all add: jl rest List.map_filter_simps)
qed

text \<open>
  C4 does not hold of the code.  \<open>lstrip("data: ")\<close> removes every leading character that
  occurs in \<open>data: \<close>, not the prefix: of the line \<open>data: true\<close> it leaves \<open>rue\<close>, and
  that is the text \<open>json.loads\<close> is given.
\<close>

theorem json_line_true:
  "json_line ''data: true'' = Some (str ''rue'')
   \<and> stream_chunks parse [] [''data: true''] = Inr (List.map_filter parse [str ''rue''])"
proof -
  have "decode ''data: true'' = Some (str ''data: true'')"
    unfolding decode_def str_def by (rule utf8_ascii) simp
  then have jl: "json_line ''data: true'' = Some (str ''rue'')"
    by (simp add: json_line_def lstrip_def strip_def is_space_def str_def)
  have ne: "str ''rue'' \<noteq> []"
    by (simp add: str_def)
  show ?thesis
    by (simp add: jl ne List.map_filter_simps split: option.splits)
qed

text \<open>The lines of the example in the specification: the chunks are what \<open>json.loads\<close>
  accepts of \<open>{"id":"1"}\<close> and \<open>garbage\<close>, in this order.\<close>

lemma json_line_example:
  "json_line ''data: {\"id\":\"1\"}'' = Some (str ''{\"id\":\"1\"}'')"
  "json_line ''garbage'' = Some (str ''garbage'')"
proof -
  have "decode ''data: {\"id\":\"1\"}'' = Some (str ''data: {\"id\":\"1\"}'')"
    unfolding decode_def str_def by (rule utf8_ascii) simp
  then show "json_line ''data: {\"id\":\"1\"}'' = Some (str ''{\"id\":\"1\"}'')"
    by (simp add: json_line_def lstrip_def strip_def is_space_def str_def)
  have "decode ''garbage'' = Some (str ''garbage'')"
    unfolding decode_def str_def by (rule utf8_ascii) simp
  then show "json_line ''garbage'' = Some (str ''garbage'')"
    by (simp add: json_line_def lstrip_def strip_def is_space_def str_def)
qed

lemma stream_chunks_example:
  "stream_chunks parse [] [''data: {\"id\":\"1\"}'', [], ''garbage'']
     = Inr (List.map_filter parse [str ''{\"id\":\"1\"}'', str ''garbage''])"
proof -
  have ne: "str ''{\"id\":\"1\"}'' \<noteq> []" "str ''garbage'' \<noteq> []"
    by (simp_all add: str_def)
  show ?thesis
    by (simp add: json_line_example ne List.map_filter_simps split: option.splits)
qed

subsection \<open>The batch script\<close>

lemma list_datasets_no_events: "snd (list_datasets L sent) = []"
  by (simp add: list_datasets_def raise_def ret_def split: sum.splits)

text \<open>
  C8.  When the client has been created and the lookup by name returns the empty list,
  the run raises \<open>ResourceNotFoundError\<close>; all it has done is the lookup and four prints.
  The directory is not looked at, no file is opened or uploaded and no parse is
  triggered.
\<close>

theorem no_dataset_aborts:
  assumes "init None None (env_api_key E) (env_api_url E) = Inr self"
    and "fst (list_datasets L (sent_list_datasets E)) = Inr []"
  shows "upload_and_parse_documents E L dataset_name doc_dir =
    (Inl (ResourceNotFoundError (Value (JString (msg_missing dataset_name)))),
     [Print msg_init NoArg,
      Print msg_lookup (ArgStr dataset_name),
      ListDatasetsCall dataset_name,
      Print msg_not_found (ArgStr dataset_name),
      Print msg_error (ArgExn (ResourceNotFoundError (Value (JString (msg_missing dataset_name)))))])"
proof -
  have l: "list_datasets L (sent_list_datasets E) = (Inr [], [])"
    using assms(2) list_datasets_no_events [of L "sent_list_datasets E"]
    by (simp add: prod_eq_iff)
  have "try_body E L dataset_name doc_dir =
    (Inl (ResourceNotFoundError (Value (JString (msg_missing dataset_name)))),
     [Print msg_init NoArg,
      Print msg_lookup (ArgStr dataset_name),
      ListDatasetsCall dataset_name,
      Print msg_not_found (ArgStr dataset_name)])"
    using assms(1) l
    by (simp add: try_body_def seq_emit) (simp add: seq_def raise_def)
  then show ?thesis
    by (simp add: upload_and_parse_documents_def)
qed

theorem no_dataset_aborts_witness:
  "upload_and_parse_documents
     \<lparr>env_api_key = Some (str ''key''), env_api_url = None,
      sent_list_datasets = Inr \<lparr>status_code = 200, body_text = [],
         body_json = Some (JObject [(str ''code'', JInt 0), (str ''data'', JArray [])]),
         iter_lines = [], iter_content = []\<rparr>,
      path_exists = (\<lambda>p. True), path_isdir = (\<lambda>p. True),
      listdir = (\<lambda>p. Inr [str ''a.pdf'']), path_isfile = (\<lambda>p. True),
      open_rb = (\<lambda>p. None), sent_upload = (\<lambda>p. Inl (LibraryError 0)),
      sent_parse = (\<lambda>ids. Inl (LibraryError 0))\<rparr>
     \<lparr>loads = (\<lambda>s. None), urljoin = (\<lambda>a b. a @ b),
      validate_completion = (\<lambda>kvs. Inl (LibraryError 0)),
      validate_dataset = (\<lambda>kvs. Inl (LibraryError 0)),
      validate_chunk = (\<lambda>kvs. Inl (LibraryError 0))\<rparr>
     (str ''kb'') (str ''docs'')
   = (Inl (ResourceNotFoundError (Value (JString (msg_missing (str ''kb''))))),
      [Print msg_init NoArg,
       Print msg_lookup (ArgStr (str ''kb'')),
       ListDatasetsCall (str ''kb''),
       Print msg_not_found (ArgStr (str ''kb'')),
       Print msg_error (ArgExn (ResourceNotFoundError (Value (JString (msg_missing (str ''kb''))))))])"
proof -
  let ?E = "\<lparr>env_api_key = Some (str ''key''), env_api_url = None,
      sent_list_datasets = Inr \<lparr>status_code = 200, body_text = [],
         body_json = Some (JObject [(str ''code'', JInt 0), (str ''data'', JArray [])]),
         iter_lines = [], iter_content = []\<rparr>,
      path_exists = (\<lambda>p. True), path_isdir = (\<lambda>p. True),
      listdir = (\<lambda>p. Inr [str ''a.pdf'']), path_isfile = (\<lambda>p. True),
      open_rb = (\<lambda>p. None), sent_upload = (\<lambda>p. Inl (LibraryError 0)),
      sent_parse = (\<lambda>ids. Inl (LibraryError 0))\<rparr>"
  let ?L = "\<lparr>loads = (\<lambda>s. None), urljoin = (\<lambda>a b. a @ b),
      validate_completion = (\<lambda>kvs. Inl (LibraryError 0)),
      validate_dataset = (\<lambda>kvs. Inl (LibraryError 0)),
      validate_chunk = (\<lambda>kvs. Inl (LibraryError 0))\<rparr>"
  let ?self = "\<lparr>api_key = str ''key'', base_url = get_base_url None\<rparr>"
  have i: "init None None (env_api_key ?E) (env_api_url ?E) = Inr ?self"
    by (simp add: init_def str_def)
  have l: "fst (list_datasets ?L (sent_list_datasets ?E)) = Inr []"
    by (simp add: list_datasets_def request_json_def request_def handle_response_def)
  show ?thesis
    using no_dataset_aborts [OF i l, of "str ''kb''" "str ''docs''"] by simp
qed

end
